theory Spec2Isabelle
  imports Main
begin

section \<open>Values and exceptions of the Python program\<close>

text \<open>
  Everything \<^verbatim>\<open>kernel.py\<close> receives from a kernel is the result of \<^verbatim>\<open>json.loads\<close>:
  a dynamically typed value. A dict is an association list in iteration order, looked up
  with \<open>map_of\<close>; \<^verbatim>\<open>json.loads\<close> never produces a dict with a repeated key. A Python
  \<^verbatim>\<open>str\<close> is a \<open>string\<close>, one list element per character of the \<^verbatim>\<open>str\<close>. The program
  never calculates with a number, so a float is kept as mantissa and exponent.
\<close>

datatype json =
    JNull
  | JBool bool
  | JInt int
  | JFloat int int
  | JStr string
  | JList "json list"
  | JObj "(string \<times> json) list"

text \<open>
  The exceptions the program can meet. \<open>KeyError\<close> carries the missing key.
  \<open>ValueError_too_many_values\<close> and \<open>ValueError_not_enough_values\<close> are the two
  \<^verbatim>\<open>ValueError\<close>s of the unpacking assignment \<^verbatim>\<open>x, = xs\<close>. \<open>WebSocketError\<close> is an
  exception of the websocket library on opening, sending or receiving,
  \<open>ConnectionClosed\<close> the one that a receive on a closed channel ends in,
  \<open>JSONDecodeError\<close> the \<^verbatim>\<open>ValueError\<close> of \<^verbatim>\<open>json.loads\<close> on a text that is no JSON
  (the empty text of a close frame, for one), and \<open>OtherError\<close> any further exception
  a registered handler or a callback raises. All of them are subclasses of
  \<^verbatim>\<open>Exception\<close>.
\<close>

datatype error =
    KeyError json
  | TypeError
  | AttributeError
  | ValueError_too_many_values
  | ValueError_not_enough_values
  | WebSocketError string
  | ConnectionClosed
  | JSONDecodeError
  | OtherError string

text \<open>
  What a handler or a callback, code from outside the program, can raise: an
  \<^verbatim>\<open>Exception\<close>, or a \<^verbatim>\<open>BaseException\<close> that is no \<^verbatim>\<open>Exception\<close> (\<^verbatim>\<open>SystemExit\<close>,
  \<^verbatim>\<open>KeyboardInterrupt\<close>, \<^verbatim>\<open>GeneratorExit\<close>), given by its name. The clause
  \<^verbatim>\<open>except Exception\<close> catches the first kind only, and so does \<^verbatim>\<open>except KeyError\<close>.
\<close>

datatype raised = Exception error | BaseException string

definition MSG_TYPE_EXECUTE_REQUEST :: string where
  "MSG_TYPE_EXECUTE_REQUEST = ''execute_request''"

definition MSG_TYPE_EXECUTE_RESULT :: string where
  "MSG_TYPE_EXECUTE_RESULT = ''execute_result''"

definition MSG_TYPE_EXECUTE_REPLY :: string where
  "MSG_TYPE_EXECUTE_REPLY = ''execute_reply''"



definition MSG_TYPE_DISPLAY_DATA :: string where
  "MSG_TYPE_DISPLAY_DATA = ''display_data''"

definition JUPYTER_PROTOCOL_VERSION :: string where
  "JUPYTER_PROTOCOL_VERSION = ''5.0''"

text \<open>
  \<^verbatim>\<open>obj[key]\<close> for a \<^verbatim>\<open>str\<close> key: a dict gives the value or raises \<^verbatim>\<open>KeyError\<close>; a
  \<^verbatim>\<open>str\<close> and a list take integer indices only, and \<^verbatim>\<open>None\<close>, a bool and a number are
  not subscriptable: all of them raise \<^verbatim>\<open>TypeError\<close>.
\<close>

fun py_getitem :: "json \<Rightarrow> string \<Rightarrow> error + json" where
  "py_getitem (JObj kvs) key =
     (case map_of kvs key of None \<Rightarrow> Inl (KeyError (JStr key)) | Some v \<Rightarrow> Inr v)"
| "py_getitem _ key = Inl TypeError"

section \<open>Reply router: \<^verbatim>\<open>extract_content\<close> and \<^verbatim>\<open>extract_data\<close>\<close>

text \<open>
  \<^verbatim>\<open>
  def extract_content(messages, msg_type):
      return [message['content'] for message in messages
              if message['header']['msg_type'] == msg_type]
  \<close>
  The comprehension evaluates the condition of each message in turn, then the element
  expression of a message that matches; the first exception ends it.
\<close>

fun extract_content :: "json list \<Rightarrow> string \<Rightarrow> error + json list" where
  "extract_content [] msg_type = Inr []"
| "extract_content (message # messages) msg_type =
     (case py_getitem message ''header'' of
        Inl e \<Rightarrow> Inl e
      | Inr header \<Rightarrow>
          (case py_getitem header ''msg_type'' of
             Inl e \<Rightarrow> Inl e
           | Inr t \<Rightarrow>
               if t = JStr msg_type then
                 (case py_getitem message ''content'' of
                    Inl e \<Rightarrow> Inl e
                  | Inr content \<Rightarrow>
                      (case extract_content messages msg_type of
                         Inl e \<Rightarrow> Inl e
                       | Inr contents \<Rightarrow> Inr (content # contents)))
               else extract_content messages msg_type))"

text \<open>
  \<^verbatim>\<open>
  def extract_data(result):
      try:
          return result['data']
      except KeyError:
          return ""
  \<close>
  Only \<^verbatim>\<open>KeyError\<close> is caught: a \<open>result\<close> that is no dict raises \<^verbatim>\<open>TypeError\<close>.
\<close>

definition extract_data :: "json \<Rightarrow> error + json" where
  "extract_data result =
     (case py_getitem result ''data'' of
        Inl (KeyError k) \<Rightarrow> Inr (JStr '''')
      | Inl e \<Rightarrow> Inl e
      | Inr d \<Rightarrow> Inr d)"

section \<open>Channel transport: \<^verbatim>\<open>_communicate\<close>\<close>

text \<open>\<^verbatim>\<open>s.endswith(suffix)\<close> of Python.\<close>

definition endswith :: "string \<Rightarrow> string \<Rightarrow> bool" where
  "endswith s suffix =
     (length suffix \<le> length s \<and> drop (length s - length suffix) s = suffix)"

text \<open>
  The test of the receive loop, \<^verbatim>\<open>reply["msg_type"].endswith("_reply")\<close>: it reads
  the \<open>msg_type\<close> field at the top level of the frame. A value that is no \<^verbatim>\<open>str\<close> has
  no \<^verbatim>\<open>endswith\<close>.
\<close>

definition msg_type_endswith_reply :: "json \<Rightarrow> error + bool" where
  "msg_type_endswith_reply reply =
     (case py_getitem reply ''msg_type'' of
        Inl e \<Rightarrow> Inl e
      | Inr (JStr s) \<Rightarrow> Inr (endswith s ''_reply'')
      | Inr _ \<Rightarrow> Inl AttributeError)"

text \<open>
  The websocket library and \<^verbatim>\<open>json.loads\<close> are not part of the program. A channel
  says what they do during one exchange: whether \<^verbatim>\<open>create_connection\<close> and
  \<^verbatim>\<open>sock.send\<close> raise, and what the \<open>i\<close>-th evaluation of
  \<^verbatim>\<open>json.loads(sock.recv())\<close> does: it returns a frame (\<open>Some (Inr frame)\<close>), raises
  (\<open>Some (Inl e)\<close>), or blocks for ever (\<open>None\<close>). A channel that closes after \<open>n\<close>
  frames raises \<open>ConnectionClosed\<close> at receive \<open>n\<close>.
\<close>

record channel =
  create_connection_error :: "error option"
  send_error :: "error option"
  recv :: "nat \<Rightarrow> (error + json) option"

text \<open>
  \<^verbatim>\<open>
  while True:
      reply = json.loads(sock.recv())
      replies.append(reply)
      if reply["msg_type"].endswith("_reply"):
          break
  \<close>
  The loop has no bound: on a channel that goes on delivering other frames, or is
  silent, it does not return, which is the value \<open>None\<close>.
\<close>

partial_function (option) recv_loop ::
  "(nat \<Rightarrow> (error + json) option) \<Rightarrow> nat \<Rightarrow> json list \<Rightarrow> (error + json list) option"
where
  "recv_loop rcv i replies =
     (case rcv i of
        None \<Rightarrow> None
      | Some (Inl e) \<Rightarrow> Some (Inl e)
      | Some (Inr reply) \<Rightarrow>
          (case msg_type_endswith_reply reply of
             Inl e \<Rightarrow> Some (Inl e)
           | Inr stop \<Rightarrow>
               if stop then Some (Inr (replies @ [reply]))
               else recv_loop rcv (Suc i) (replies @ [reply])))"

text \<open>
  \<^verbatim>\<open>_communicate(self, message)\<close>. The network \<open>net\<close> gives the channel that
  \<^verbatim>\<open>create_connection(self._ws_url)\<close> opens for the exchange of \<open>message\<close>.
\<close>

definition communicate :: "(json \<Rightarrow> channel) \<Rightarrow> json \<Rightarrow> (error + json list) option" where
  "communicate net message =
     (let sock = net message in
      case create_connection_error sock of
        Some e \<Rightarrow> Some (Inl e)
      | None \<Rightarrow>
          (case send_error sock of
             Some e \<Rightarrow> Some (Inl e)
           | None \<Rightarrow> recv_loop (recv sock) 0 []))"

text \<open>A channel that delivers the frames of a list, then is closed.\<close>

definition closing_channel :: "json list \<Rightarrow> channel" where
  "closing_channel frames =
     \<lparr>create_connection_error = None, send_error = None,
      recv = (\<lambda>i. if i < length frames then Some (Inr (frames ! i))
                   else Some (Inl ConnectionClosed))\<rparr>"

text \<open>
  A channel that delivers the frames of a list and then does what \<open>ending\<close> says at
  every further receive: it raises, or (\<open>None\<close>) it stays silent.
\<close>

definition ending_channel :: "json list \<Rightarrow> error option \<Rightarrow> channel" where
  "ending_channel frames ending =
     \<lparr>create_connection_error = None, send_error = None,
      recv = (\<lambda>i. if i < length frames then Some (Inr (frames ! i))
                   else (case ending of None \<Rightarrow> None | Some e \<Rightarrow> Some (Inl e)))\<rparr>"

section \<open>Message builder\<close>

text \<open>
  \<^verbatim>\<open>_gen_header\<close>; \<^verbatim>\<open>uuid4().hex\<close> and \<^verbatim>\<open>datetime.now().isoformat()\<close> come from the
  environment and are arguments here.
\<close>

definition gen_header :: "string \<Rightarrow> string \<Rightarrow> string \<Rightarrow> string \<Rightarrow> json" where
  "gen_header kernel_id msg_id now msg_type =
     JObj [(''version'', JStr JUPYTER_PROTOCOL_VERSION),
           (''kernel_id'', JStr kernel_id),
           (''msg_id'', JStr msg_id),
           (''datetime'', JStr now),
           (''msg_type'', JStr msg_type)]"

definition gen_message :: "json \<Rightarrow> json \<Rightarrow> json" where
  "gen_message header content =
     JObj [(''header'', header),
           (''parent_header'', JObj []),
           (''channel'', JStr ''shell''),
           (''content'', content),
           (''metadata'', JObj []),
           (''buffers'', JObj [])]"

text \<open>The request message of \<^verbatim>\<open>execute_code\<close> (lines 224 to 237).\<close>

definition execute_request :: "string \<Rightarrow> string \<Rightarrow> string \<Rightarrow> string \<Rightarrow> json" where
  "execute_request kernel_id msg_id now code =
     gen_message
       (gen_header kernel_id msg_id now MSG_TYPE_EXECUTE_REQUEST)
       (JObj [(''code'', JStr code),
              (''silent'', JBool False),
              (''store_history'', JBool True),
              (''user_expressions'', JObj []),
              (''allow_stdin'', JBool False)])"

section \<open>Completion: \<^verbatim>\<open>get_complete\<close>\<close>

text \<open>
  The unpacking assignment \<^verbatim>\<open>x, = xs\<close>, then the request message of
  \<^verbatim>\<open>get_complete\<close> (lines 242 to 256) and the function.
\<close>

fun unpack_one :: "'a list \<Rightarrow> error + 'a" where
  "unpack_one [] = Inl ValueError_not_enough_values"
| "unpack_one [x] = Inr x"
| "unpack_one (x # y # xs) = Inl ValueError_too_many_values"



section \<open>Execution: the callback of \<^verbatim>\<open>execute_code\<close>\<close>

text \<open>
  A registered handler works on the world outside the program (the output view, the file
  system), of a type \<open>'w\<close>: it returns the new world, and what it raised if it raised.
  A display handler takes the payload, a result handler the code and the payload.
\<close>

type_synonym 'w display_handler = "json \<Rightarrow> 'w \<Rightarrow> raised option \<times> 'w"

type_synonym 'w result_handler = "string \<Rightarrow> json \<Rightarrow> 'w \<Rightarrow> raised option \<times> 'w"

text \<open>
  The fields of \<^verbatim>\<open>KernelConnection\<close> that the callback reads: the two registries
  \<^verbatim>\<open>_handle_display_data\<close> and \<^verbatim>\<open>_run_commands\<close>, keyed by MIME type.
\<close>

record 'w kernel_connection =
  kernel_id :: string
  handle_display_data :: "string \<rightharpoonup> 'w display_handler"
  run_commands :: "string \<rightharpoonup> 'w result_handler"

text \<open>
  What the callback does is observed in the world and in the list of the handler calls it
  has made: the MIME type and the payload of each call, in the order of the calls.
\<close>

datatype invocation = Display_call string json | Result_call string string json

record 'w callback_state =
  world :: 'w
  invoked :: "invocation list"

text \<open>
  The values that \<^verbatim>\<open>for x in v\<close> visits: the keys of a dict, the characters of a
  \<^verbatim>\<open>str\<close>, the items of a list; anything else is not iterable.
\<close>

fun py_iter :: "json \<Rightarrow> error + json list" where
  "py_iter (JObj kvs) = Inr (map (\<lambda>kv. JStr (fst kv)) kvs)"
| "py_iter (JStr s) = Inr (map (\<lambda>c. JStr [c]) s)"
| "py_iter (JList xs) = Inr xs"
| "py_iter _ = Inl TypeError"

text \<open>
  A \<^verbatim>\<open>for\<close> loop whose body may raise: the first exception ends the loop, and what the
  earlier iterations did stays done.
\<close>

fun for_loop :: "('a \<Rightarrow> 's \<Rightarrow> 'e option \<times> 's) \<Rightarrow> 'a list \<Rightarrow> 's \<Rightarrow> 'e option \<times> 's" where
  "for_loop body [] s = (None, s)"
| "for_loop body (x # xs) s =
     (case body x s of
        (None, s') \<Rightarrow> for_loop body xs s'
      | (Some e, s') \<Rightarrow> (Some e, s'))"

text \<open>\<^verbatim>\<open>except KeyError: pass\<close> around a statement.\<close>

fun except_KeyError_pass :: "raised option \<times> 's \<Rightarrow> raised option \<times> 's" where
  "except_KeyError_pass (Some (Exception (KeyError k)), s) = (None, s)"
| "except_KeyError_pass r = r"

text \<open>
  The body of the inner display loop, for one \<open>mime_type\<close> of \<open>display_data\<close>:
  \<^verbatim>\<open>
  try:
      self._handle_display_data[mime_type](display_data[mime_type])
  except KeyError:
      pass
  \<close>
  The registry is looked up first (a key that is a list or a dict is unhashable:
  \<^verbatim>\<open>TypeError\<close>; every other key that is not registered: \<^verbatim>\<open>KeyError\<close>), then the
  payload is read, then the handler is called.
\<close>

definition call_display_handler ::
  "'w kernel_connection \<Rightarrow> json \<Rightarrow> json \<Rightarrow> 'w callback_state \<Rightarrow> raised option \<times> 'w callback_state"
where
  "call_display_handler self display_data mime_type s =
     except_KeyError_pass
       (case mime_type of
          JStr mime \<Rightarrow>
            (case handle_display_data self mime of
               None \<Rightarrow> (Some (Exception (KeyError mime_type)), s)
             | Some handler \<Rightarrow>
                 (case py_getitem display_data mime of
                    Inl e \<Rightarrow> (Some (Exception e), s)
                  | Inr payload \<Rightarrow>
                      (case handler payload (world s) of
                         (r, w) \<Rightarrow>
                           (r, \<lparr>world = w,
                                invoked = invoked s @ [Display_call mime payload]\<rparr>))))
        | JList xs \<Rightarrow> (Some (Exception TypeError), s)
        | JObj kvs \<Rightarrow> (Some (Exception TypeError), s)
        | _ \<Rightarrow> (Some (Exception (KeyError mime_type)), s))"

text \<open>The body of the outer display loop, for one \<open>display_content\<close>.\<close>

definition handle_display_content ::
  "'w kernel_connection \<Rightarrow> json \<Rightarrow> 'w callback_state \<Rightarrow> raised option \<times> 'w callback_state"
where
  "handle_display_content self display_content s =
     (case extract_data display_content of
        Inl e \<Rightarrow> (Some (Exception e), s)
      | Inr display_data \<Rightarrow>
          (case py_iter display_data of
             Inl e \<Rightarrow> (Some (Exception e), s)
           | Inr mime_types \<Rightarrow>
               for_loop (call_display_handler self display_data) mime_types s))"

text \<open>
  The body of the result loop, for one \<open>mime_type\<close> of \<open>data\<close>:
  \<^verbatim>\<open>
  if mime_type in self._run_commands:
      try:
          self._run_commands[mime_type](code, data[mime_type])
      except KeyError:
          pass
  \<close>
  The membership test is outside the \<^verbatim>\<open>try\<close>; it raises \<^verbatim>\<open>TypeError\<close> on an
  unhashable key.
\<close>

definition call_result_handler ::
  "'w kernel_connection \<Rightarrow> string \<Rightarrow> json \<Rightarrow> json \<Rightarrow> 'w callback_state \<Rightarrow>
     raised option \<times> 'w callback_state"
where
  "call_result_handler self code data mime_type s =
     (case mime_type of
        JStr mime \<Rightarrow>
          (case run_commands self mime of
             None \<Rightarrow> (None, s)
           | Some handler \<Rightarrow>
               except_KeyError_pass
                 (case py_getitem data mime of
                    Inl e \<Rightarrow> (Some (Exception e), s)
                  | Inr payload \<Rightarrow>
                      (case handler code payload (world s) of
                         (r, w) \<Rightarrow>
                           (r, \<lparr>world = w,
                                invoked = invoked s @ [Result_call mime code payload]\<rparr>))))
      | JList xs \<Rightarrow> (Some (Exception TypeError), s)
      | JObj kvs \<Rightarrow> (Some (Exception TypeError), s)
      | _ \<Rightarrow> (None, s))"

text \<open>
  The display step of the callback (lines 197 to 207), then its result step (lines 208
  to 222), which returns at once when there is no \<^verbatim>\<open>execute_result\<close> content and
  unpacks exactly one otherwise.
\<close>

definition display_step ::
  "'w kernel_connection \<Rightarrow> json list \<Rightarrow> 'w callback_state \<Rightarrow> raised option \<times> 'w callback_state"
where
  "display_step self reply s =
     (case extract_content reply MSG_TYPE_DISPLAY_DATA of
        Inl e \<Rightarrow> (Some (Exception e), s)
      | Inr display_contents \<Rightarrow>
          for_loop (handle_display_content self) display_contents s)"

definition result_step ::
  "'w kernel_connection \<Rightarrow> string \<Rightarrow> json list \<Rightarrow> 'w callback_state \<Rightarrow>
     raised option \<times> 'w callback_state"
where
  "result_step self code reply s =
     (case extract_content reply MSG_TYPE_EXECUTE_RESULT of
        Inl e \<Rightarrow> (Some (Exception e), s)
      | Inr result_content \<Rightarrow>
          if length result_content = 0 then (None, s)
          else
            (case unpack_one result_content of
               Inl e \<Rightarrow> (Some (Exception e), s)
             | Inr result \<Rightarrow>
                 (case extract_data result of
                    Inl e \<Rightarrow> (Some (Exception e), s)
                  | Inr data \<Rightarrow>
                      (case py_iter data of
                         Inl e \<Rightarrow> (Some (Exception e), s)
                       | Inr mime_types \<Rightarrow>
                           for_loop (call_result_handler self code data) mime_types s))))"

definition execute_code_callback ::
  "'w kernel_connection \<Rightarrow> string \<Rightarrow> json list \<Rightarrow> 'w callback_state \<Rightarrow>
     raised option \<times> 'w callback_state"
where
  "execute_code_callback self code reply s =
     (case display_step self reply s of
        (Some e, s') \<Rightarrow> (Some e, s')
      | (None, s') \<Rightarrow> result_step self code reply s')"

section \<open>The text result handler: \<^verbatim>\<open>_handle_text\<close>\<close>

text \<open>
  The slice \<^verbatim>\<open>s[:n]\<close>: the first \<open>n\<close> characters, and for a negative \<open>n\<close> all but
  the last \<open>- n\<close>.
\<close>

definition py_slice_to :: "string \<Rightarrow> int \<Rightarrow> string" where
  "py_slice_to s n = (if 0 \<le> n then take (nat n) s else take (length s - nat (- n)) s)"

text \<open>
  \<^verbatim>\<open>_write_to_view(line + "\n")\<close>: the output view is the text appended to it so far.
  \<^verbatim>\<open>line + "\n"\<close> raises \<^verbatim>\<open>TypeError\<close> for a \<open>line\<close> that is no \<^verbatim>\<open>str\<close>.
\<close>

definition write_line :: "json \<Rightarrow> string \<Rightarrow> raised option \<times> string" where
  "write_line line view =
     (case line of
        JStr text \<Rightarrow> (None, view @ text @ [CHR 0x0A])
      | _ \<Rightarrow> (Some (Exception TypeError), view))"

text \<open>
  The first statement of \<^verbatim>\<open>_handle_text\<close>, which gives the input that is shown:
  \<^verbatim>\<open>
  if len(code) > self._max_shown_input_length:
      code = code[:self._max_shown_input_length] + "..."
  \<close>
\<close>

definition shown_input :: "int \<Rightarrow> string \<Rightarrow> string" where
  "shown_input max_shown_input_length code =
     (if int (length code) > max_shown_input_length
      then py_slice_to code max_shown_input_length @ ''...''
      else code)"

text \<open>
  \<^verbatim>\<open>_handle_text(self, code, result)\<close>. The setting \<^verbatim>\<open>max_shown_input_length\<close> is
  \<^verbatim>\<open>None\<close> when it is not configured, and the comparison of \<^verbatim>\<open>len(code)\<close> with
  \<^verbatim>\<open>None\<close> raises \<^verbatim>\<open>TypeError\<close>.
\<close>

definition handle_text :: "int option \<Rightarrow> string result_handler" where
  "handle_text max_shown_input_length code result view =
     (case max_shown_input_length of
        None \<Rightarrow> (Some (Exception TypeError), view)
      | Some l \<Rightarrow>
          for_loop write_line
            [JStr ''input:'', JStr (shown_input l code), JStr ''output:'', result,
             JStr ''---'', JStr [CHR 0x0A]]
            view)"

section \<open>Async dispatcher: \<^verbatim>\<open>AsyncCommunicator\<close>\<close>

text \<open>
  A task is the pair \<^verbatim>\<open>(message, callback)\<close> that \<^verbatim>\<open>_async_communicate\<close> puts on the
  queue. A callback works on a state \<open>'u\<close> (for the callback of \<^verbatim>\<open>execute_code\<close>, a
  \<open>callback_state\<close>) and returns or raises.
\<close>

type_synonym 'u task = "json \<times> (json list \<Rightarrow> 'u \<Rightarrow> raised option \<times> 'u)"

text \<open>
  What happens on a connection, in order: the beginning and the end of an exchange, the
  call of a callback with a reply, and \<^verbatim>\<open>print(err)\<close>. The first three name the message
  of the exchange.
\<close>

datatype event =
    Exchange_begin json
  | Exchange_end json
  | Callback_fired json "json list"
  | Printed error

text \<open>
  \<^verbatim>\<open>AsyncCommunicator\<close> is a \<^verbatim>\<open>Thread\<close> with a queue: \<open>alive\<close> is whether the thread
  still runs. The trace and the state of the callbacks are kept with it.
\<close>

record 'u dispatcher =
  message_queue :: "'u task list"
  trace :: "event list"
  user :: 'u
  alive :: bool

text \<open>\<^verbatim>\<open>_async_communicate\<close>: \<^verbatim>\<open>Queue.put\<close>, at the end of the FIFO queue.\<close>

definition async_communicate :: "'u task \<Rightarrow> 'u dispatcher \<Rightarrow> 'u dispatcher" where
  "async_communicate task d = d\<lparr>message_queue := message_queue d @ [task]\<rparr>"

text \<open>
  One pass through the body of \<^verbatim>\<open>while True\<close> in \<^verbatim>\<open>run\<close>:
  \<^verbatim>\<open>
  try:
      message, callback = self.message_queue.get()
      reply = self._kernel._communicate(message)
      callback(reply)
  except Exception as err:
      print(err)
  \<close>
  in two parts. The first is \<^verbatim>\<open>get\<close>, which takes the task at the head of the queue,
  up to the call of \<^verbatim>\<open>_communicate\<close>; on an empty queue \<^verbatim>\<open>get\<close> blocks (\<open>None\<close>).
\<close>

definition begin_exchange :: "'u dispatcher \<Rightarrow> ('u task \<times> 'u dispatcher) option" where
  "begin_exchange d =
     (case message_queue d of
        [] \<Rightarrow> None
      | task # waiting \<Rightarrow>
          Some (task, d\<lparr>message_queue := waiting,
                        trace := trace d @ [Exchange_begin (fst task)]\<rparr>))"

text \<open>
  The second part is the exchange and what follows it. An exception of the exchange is
  printed. A reply is given to the callback; an \<^verbatim>\<open>Exception\<close> of the callback is
  printed, and anything else it raises is not caught by \<^verbatim>\<open>except Exception\<close>, leaves
  \<^verbatim>\<open>run\<close> and ends the thread. The result is \<open>None\<close> when the exchange does not
  return: the worker then stays in it for ever.
\<close>

definition end_exchange ::
  "(json \<Rightarrow> channel) \<Rightarrow> 'u task \<Rightarrow> 'u dispatcher \<Rightarrow> 'u dispatcher option"
where
  "end_exchange net task d =
     (case task of
        (message, callback) \<Rightarrow>
          (case communicate net message of
             None \<Rightarrow> None
           | Some (Inl err) \<Rightarrow>
               Some (d\<lparr>trace := trace d @ [Exchange_end message, Printed err]\<rparr>)
           | Some (Inr reply) \<Rightarrow>
               (case callback reply (user d) of
                  (None, u) \<Rightarrow>
                    Some (d\<lparr>trace := trace d @
                              [Exchange_end message, Callback_fired message reply],
                            user := u\<rparr>)
                | (Some (Exception err), u) \<Rightarrow>
                    Some (d\<lparr>trace := trace d @
                              [Exchange_end message, Callback_fired message reply,
                               Printed err],
                            user := u\<rparr>)
                | (Some (BaseException name), u) \<Rightarrow>
                    Some (d\<lparr>trace := trace d @
                              [Exchange_end message, Callback_fired message reply],
                            user := u,
                            alive := False\<rparr>))))"

definition run_body :: "(json \<Rightarrow> channel) \<Rightarrow> 'u dispatcher \<Rightarrow> 'u dispatcher option" where
  "run_body net d =
     (case begin_exchange d of
        None \<Rightarrow> Some d
      | Some (task, d') \<Rightarrow> end_exchange net task d')"

text \<open>\<^verbatim>\<open>AsyncCommunicator.__init__\<close> and \<^verbatim>\<open>start\<close>: an empty queue, a running thread.\<close>

definition init_dispatcher :: "'u \<Rightarrow> 'u dispatcher" where
  "init_dispatcher u = \<lparr>message_queue = [], trace = [], user = u, alive = True\<rparr>"

text \<open>\<^verbatim>\<open>execute_code\<close>: the request message and the callback, put on the queue.\<close>

definition execute_code ::
  "'w kernel_connection \<Rightarrow> string \<Rightarrow> string \<Rightarrow> string \<Rightarrow>
     'w callback_state dispatcher \<Rightarrow> 'w callback_state dispatcher"
where
  "execute_code self msg_id now code d =
     async_communicate
       (execute_request (kernel_id self) msg_id now code, execute_code_callback self code) d"

section \<open>The threads of a connection\<close>

text \<open>
  The threads of the callers and the worker thread share the queue only. The state of a
  connection is the dispatcher, the task whose exchange the worker thread is in (its
  place in \<^verbatim>\<open>run\<close>: \<open>None\<close> at \<^verbatim>\<open>get\<close>), and the messages of the calls of
  \<^verbatim>\<open>get_complete\<close> that are in their exchange, on the threads of their callers.
\<close>

record 'u connection_state =
  async_communicator :: "'u dispatcher"
  worker_in :: "'u task option"
  sync_calls :: "json list"

text \<open>
  What the threads do, one step at a time: a caller submits a task; the worker takes a
  task from the queue and begins its exchange; the worker comes to the end of its
  exchange, with the callback or the \<^verbatim>\<open>print\<close>; a caller of \<^verbatim>\<open>get_complete\<close> begins
  the exchange of its request, on its own thread and without the queue, or comes to the
  end of it.
\<close>

datatype 'u action =
    Submit "'u task"
  | Take
  | Finish
  | Sync_begin json
  | Sync_end json

text \<open>
  A step that cannot happen in a state leaves it as it is: the worker takes no task
  when its thread has ended, when it is in an exchange or when the queue is empty, and no
  exchange comes to an end that is not in progress, or that never returns.
\<close>

fun step :: "(json \<Rightarrow> channel) \<Rightarrow> 'u action \<Rightarrow> 'u connection_state \<Rightarrow> 'u connection_state" where
  "step net (Submit task) c =
     c\<lparr>async_communicator := async_communicate task (async_communicator c)\<rparr>"
| "step net Take c =
     (if alive (async_communicator c) \<and> worker_in c = None then
        (case begin_exchange (async_communicator c) of
           None \<Rightarrow> c
         | Some (task, d) \<Rightarrow> c\<lparr>async_communicator := d, worker_in := Some task\<rparr>)
      else c)"
| "step net Finish c =
     (case worker_in c of
        None \<Rightarrow> c
      | Some task \<Rightarrow>
          (case end_exchange net task (async_communicator c) of
             None \<Rightarrow> c
           | Some d \<Rightarrow> c\<lparr>async_communicator := d, worker_in := None\<rparr>))"
| "step net (Sync_begin message) c =
     c\<lparr>async_communicator :=
         (async_communicator c)
           \<lparr>trace := trace (async_communicator c) @ [Exchange_begin message]\<rparr>,
       sync_calls := sync_calls c @ [message]\<rparr>"
| "step net (Sync_end message) c =
     (if message \<in> set (sync_calls c) \<and> communicate net message \<noteq> None then
        c\<lparr>async_communicator :=
            (async_communicator c)
              \<lparr>trace := trace (async_communicator c) @ [Exchange_end message]\<rparr>,
          sync_calls := remove1 message (sync_calls c)\<rparr>
      else c)"

text \<open>A schedule is the order in which the steps of the threads happen.\<close>

fun exec :: "(json \<Rightarrow> channel) \<Rightarrow> 'u action list \<Rightarrow> 'u connection_state \<Rightarrow> 'u connection_state" where
  "exec net [] c = c"
| "exec net (a # as) c = exec net as (step net a c)"

definition init_connection :: "'u \<Rightarrow> 'u connection_state" where
  "init_connection u =
     \<lparr>async_communicator = init_dispatcher u, worker_in = None, sync_calls = []\<rparr>"

section \<open>Readings of traces and schedules\<close>


fun fired :: "event list \<Rightarrow> json list" where
  "fired [] = []"
| "fired (Callback_fired m reply # tr) = m # fired tr"
| "fired (e # tr) = fired tr"




fun one_in_flight :: "nat \<Rightarrow> event list \<Rightarrow> bool" where
  "one_in_flight n [] = (n \<le> 1)"
| "one_in_flight n (Exchange_begin m # tr) = (n \<le> 1 \<and> one_in_flight (Suc n) tr)"
| "one_in_flight n (Exchange_end m # tr) = (n \<le> 1 \<and> one_in_flight (n - 1) tr)"
| "one_in_flight n (e # tr) = (n \<le> 1 \<and> one_in_flight n tr)"






section \<open>Well-formed reply streams and the handler calls they ask for\<close>

text \<open>
  A well-formed message is a dict with a \<open>header\<close> that is a dict with a \<open>msg_type\<close>
  that is a \<^verbatim>\<open>str\<close>, and with a \<open>content\<close>. The selection of a reply stream by type,
  in the words of the specification: the content blocks of the messages whose
  \<open>header.msg_type\<close> equals the type, in arrival order.
\<close>

definition message_parts :: "json \<Rightarrow> (string \<times> json) option" where
  "message_parts message =
     (case message of
        JObj items \<Rightarrow>
          (case map_of items ''header'' of
             Some (JObj header) \<Rightarrow>
               (case map_of header ''msg_type'' of
                  Some (JStr t) \<Rightarrow>
                    (case map_of items ''content'' of
                       Some content \<Rightarrow> Some (t, content)
                     | None \<Rightarrow> None)
                | _ \<Rightarrow> None)
           | _ \<Rightarrow> None)
      | _ \<Rightarrow> None)"

definition wf_message :: "json \<Rightarrow> bool" where
  "wf_message message = (message_parts message \<noteq> None)"

definition select_by_type :: "json list \<Rightarrow> string \<Rightarrow> json list" where
  "select_by_type stream msg_type =
     List.map_filter
       (\<lambda>message.
          case message_parts message of
            None \<Rightarrow> None
          | Some (t, content) \<Rightarrow> if t = msg_type then Some content else None)
       stream"

text \<open>
  A content block with a MIME payload is a dict whose \<open>data\<close> field is absent or a dict
  (with no key twice, as in every Python dict); its payload items are the pairs of MIME
  type and payload in that dict.
\<close>

definition dict_payload :: "json \<Rightarrow> bool" where
  "dict_payload content =
     (case content of
        JObj items \<Rightarrow>
          (case map_of items ''data'' of
             None \<Rightarrow> True
           | Some (JObj kvs) \<Rightarrow> distinct (map fst kvs)
           | Some _ \<Rightarrow> False)
      | _ \<Rightarrow> False)"

definition payload_items :: "json \<Rightarrow> (string \<times> json) list" where
  "payload_items content =
     (case content of
        JObj items \<Rightarrow> (case map_of items ''data'' of Some (JObj kvs) \<Rightarrow> kvs | _ \<Rightarrow> [])
      | _ \<Rightarrow> [])"

text \<open>
  The handler calls that content blocks ask for: one for each payload item whose MIME
  type has a registered handler, in the order of the blocks and of the items. A call is
  the handler applied to its arguments, still to be run in a world, with the entry it
  makes in the list of calls.
\<close>

type_synonym 'w handler_call = "('w \<Rightarrow> raised option \<times> 'w) \<times> invocation"

definition display_handler_calls :: "'w kernel_connection \<Rightarrow> json list \<Rightarrow> 'w handler_call list" where
  "display_handler_calls self contents =
     concat (map (\<lambda>content.
       concat (map (\<lambda>kv.
         case handle_display_data self (fst kv) of
           None \<Rightarrow> []
         | Some handler \<Rightarrow> [(handler (snd kv), Display_call (fst kv) (snd kv))])
         (payload_items content)))
       contents)"

definition result_handler_calls ::
  "'w kernel_connection \<Rightarrow> string \<Rightarrow> json list \<Rightarrow> 'w handler_call list"
where
  "result_handler_calls self code contents =
     concat (map (\<lambda>content.
       concat (map (\<lambda>kv.
         case run_commands self (fst kv) of
           None \<Rightarrow> []
         | Some handler \<Rightarrow> [(handler code (snd kv), Result_call (fst kv) code (snd kv))])
         (payload_items content)))
       contents)"

text \<open>
  Running a list of handler calls one after the other: each is run in the world that the
  one before left, and entered in the list of calls; after a call that returns or raises
  \<^verbatim>\<open>KeyError\<close> the next call is run; anything else that a call raises ends the run at
  that call, and the calls after it are not made.
\<close>

fun is_KeyError :: "raised \<Rightarrow> bool" where
  "is_KeyError (Exception (KeyError k)) = True"
| "is_KeyError e = False"

definition after_call :: "'w handler_call \<Rightarrow> 'w callback_state \<Rightarrow> 'w callback_state" where
  "after_call hc s = \<lparr>world = snd (fst hc (world s)), invoked = invoked s @ [snd hc]\<rparr>"

fun dispatch :: "'w handler_call list \<Rightarrow> 'w callback_state \<Rightarrow> raised option \<times> 'w callback_state" where
  "dispatch [] s = (None, s)"
| "dispatch (hc # calls) s =
     (case fst (fst hc (world s)) of
        None \<Rightarrow> dispatch calls (after_call hc s)
      | Some e \<Rightarrow>
          if is_KeyError e then dispatch calls (after_call hc s)
          else (Some e, after_call hc s))"


text \<open>The calls of result handlers in a list of handler calls.\<close>

fun result_calls :: "invocation list \<Rightarrow> invocation list" where
  "result_calls [] = []"
| "result_calls (Result_call mime code payload # cs) =
     Result_call mime code payload # result_calls cs"
| "result_calls (Display_call mime payload # cs) = result_calls cs"

section \<open>Example frames and connections\<close>

text \<open>
  Frames as a Jupyter server sends them, with the message type in the header and at the
  top level: a \<open>display_data\<close> and an \<open>execute_result\<close> message with a given payload,
  and the \<open>execute_reply\<close> that ends a stream.
\<close>

definition display_message :: "(string \<times> json) list \<Rightarrow> json" where
  "display_message payload =
     JObj [(''header'', JObj [(''msg_type'', JStr ''display_data'')]),
           (''msg_type'', JStr ''display_data''),
           (''content'', JObj [(''data'', JObj payload)])]"

definition result_message :: "(string \<times> json) list \<Rightarrow> json" where
  "result_message payload =
     JObj [(''header'', JObj [(''msg_type'', JStr ''execute_result'')]),
           (''msg_type'', JStr ''execute_result''),
           (''content'', JObj [(''data'', JObj payload)])]"

definition reply_message :: json where
  "reply_message =
     JObj [(''header'', JObj [(''msg_type'', JStr ''execute_reply'')]),
           (''msg_type'', JStr ''execute_reply''),
           (''content'', JObj [(''status'', JStr ''ok'')])]"

text \<open>
  A connection whose world is the list of the payloads its handlers were given. The
  handler of \<open>image/png\<close> ends as \<open>r\<close> says: it returns, or raises the given exception.
\<close>

definition recording_connection :: "raised option \<Rightarrow> json list kernel_connection" where
  "recording_connection r =
     \<lparr>kernel_id = ''k1'',
      handle_display_data =
        [''image/png'' \<mapsto> (\<lambda>payload w. (r, w @ [payload])),
         ''text/html'' \<mapsto> (\<lambda>payload w. (None, w @ [payload]))],
      run_commands =
        [''text/plain'' \<mapsto> (\<lambda>code payload w. (None, w @ [payload]))]\<rparr>"

text \<open>
  A network that gives the same channel to every exchange, and a callback that does
  nothing but record, in a state that is a flag, that it has been called.
\<close>

definition every_exchange :: "channel \<Rightarrow> json \<Rightarrow> channel" where
  "every_exchange ch message = ch"

definition mark_called :: "json list \<Rightarrow> bool \<Rightarrow> raised option \<times> bool" where
  "mark_called reply u = (None, True)"



text \<open>A channel on which no connection can be opened.\<close>

definition refusing_channel :: channel where
  "refusing_channel =
     \<lparr>create_connection_error = Some (WebSocketError ''refused''), send_error = None,
      recv = (\<lambda>i. None)\<rparr>"

section \<open>The reply router\<close>

text \<open>
  C7, as the specification states it, fails: for a content block (a dict) without a
  \<open>data\<close> field \<open>extract_data\<close> returns the empty string, not an empty mapping.
\<close>

theorem extract_data_absent_not_mapping:
  "extract_data (JObj [(''text'', JStr ''hi'')]) = Inr (JStr '''') \<and>
   extract_data (JObj [(''text'', JStr ''hi'')]) \<noteq> Inr (JObj [])"
  by (simp add: extract_data_def)

text \<open>
  C7, amended: for every content block (a dict), \<open>extract_data\<close> returns the \<open>data\<close>
  field when it is present and the empty string when it is absent; it never raises.
\<close>

theorem extract_data_content_block:
  "extract_data (JObj kvs) =
     (case map_of kvs ''data'' of None \<Rightarrow> Inr (JStr '''') | Some d \<Rightarrow> Inr d)"
  by (simp add: extract_data_def split: option.split)

section \<open>The channel transport\<close>

text \<open>
  The receive loop passes over frames that are not terminal: it continues behind them
  with all of them appended, in their order.
\<close>

lemma recv_loop_frames:
  "\<forall>j < length frames. rcv (i + j) = Some (Inr (frames ! j)) \<Longrightarrow>
   \<forall>f \<in> set frames. msg_type_endswith_reply f = Inr False \<Longrightarrow>
   recv_loop rcv i replies = recv_loop rcv (i + length frames) (replies @ frames)"
proof (induction frames arbitrary: i replies)
  case Nil
  then show ?case by simp
next
  case (Cons f fs)
  have here: "rcv i = Some (Inr f)"
    using Cons.prems(1) by (auto dest: spec [of _ 0])
  have rest: "\<forall>j < length fs. rcv (Suc i + j) = Some (Inr (fs ! j))"
    using Cons.prems(1) by (auto dest: spec [of _ "Suc j" for j])
  have nt: "msg_type_endswith_reply f = Inr False"
    using Cons.prems(2) by simp
  have "recv_loop rcv i replies = recv_loop rcv (Suc i) (replies @ [f])"
    by (subst recv_loop.simps) (simp add: here nt)
  also have "\<dots> = recv_loop rcv (Suc i + length fs) ((replies @ [f]) @ fs)"
    using Cons.IH [OF rest] Cons.prems(2) by simp
  finally show ?case by simp
qed

text \<open>
  C2, as the specification states it, fails: the loop does not look at
  \<open>header.msg_type\<close>. A frame whose header has the type \<open>execute_reply\<close> and which
  has no \<open>msg_type\<close> field at its top level makes the exchange raise \<^verbatim>\<open>KeyError\<close>; with
  another type at the top level, the loop goes on to the next frame.
\<close>

theorem communicate_reads_top_level_msg_type:
  "py_getitem (JObj [(''header'', JObj [(''msg_type'', JStr ''execute_reply'')]),
                     (''content'', JObj [])]) ''header'' =
     Inr (JObj [(''msg_type'', JStr ''execute_reply'')]) \<and>
   endswith ''execute_reply'' ''_reply'' \<and>
   communicate
     (every_exchange (closing_channel
        [JObj [(''header'', JObj [(''msg_type'', JStr ''execute_reply'')]),
               (''content'', JObj [])]]))
     JNull = Some (Inl (KeyError (JStr ''msg_type''))) \<and>
   communicate
     (every_exchange (closing_channel
        [JObj [(''header'', JObj [(''msg_type'', JStr ''execute_reply'')]),
               (''msg_type'', JStr ''status'')],
         JObj [(''header'', JObj [(''msg_type'', JStr ''status'')]),
               (''msg_type'', JStr ''execute_reply'')]]))
     JNull =
     Some (Inr [JObj [(''header'', JObj [(''msg_type'', JStr ''execute_reply'')]),
                      (''msg_type'', JStr ''status'')],
                JObj [(''header'', JObj [(''msg_type'', JStr ''status'')]),
                      (''msg_type'', JStr ''execute_reply'')]])"
  by (simp add: endswith_def communicate_def closing_channel_def recv_loop.simps
      msg_type_endswith_reply_def every_exchange_def)

text \<open>
  C2, amended: on a channel that opens and sends, and delivers the frames \<open>frames\<close>, none
  with a top-level \<open>msg_type\<close> that ends with \<open>_reply\<close>, and then a frame \<open>final\<close>
  whose top-level \<open>msg_type\<close> ends with \<open>_reply\<close>, the exchange returns all of them in
  arrival order, \<open>final\<close> last, whatever the channel would deliver after it.
\<close>

theorem communicate_reply_stream:
  assumes "create_connection_error (net message) = None"
    and "send_error (net message) = None"
    and "\<forall>i < length frames. recv (net message) i = Some (Inr (frames ! i))"
    and "\<forall>f \<in> set frames. msg_type_endswith_reply f = Inr False"
    and "recv (net message) (length frames) = Some (Inr final)"
    and "msg_type_endswith_reply final = Inr True"
  shows "communicate net message = Some (Inr (frames @ [final]))"
proof -
  have "recv_loop (recv (net message)) 0 [] =
        recv_loop (recv (net message)) (0 + length frames) ([] @ frames)"
    by (rule recv_loop_frames) (use assms in simp_all)
  also have "\<dots> = Some (Inr (frames @ [final]))"
    by (subst recv_loop.simps) (simp add: assms)
  finally show ?thesis
    by (simp add: communicate_def assms)
qed

theorem communicate_reply_stream_witness:
  "communicate
     (every_exchange (closing_channel
        [display_message [(''image/png'', JStr ''A'')],
         result_message [(''text/plain'', JStr ''2'')],
         reply_message,
         display_message [(''image/png'', JStr ''B'')]]))
     JNull =
   Some (Inr [display_message [(''image/png'', JStr ''A'')],
              result_message [(''text/plain'', JStr ''2'')],
              reply_message])"
  using communicate_reply_stream
    [of "every_exchange (closing_channel
        [display_message [(''image/png'', JStr ''A'')],
         result_message [(''text/plain'', JStr ''2'')],
         reply_message,
         display_message [(''image/png'', JStr ''B'')]])"
      JNull
      "[display_message [(''image/png'', JStr ''A'')],
        result_message [(''text/plain'', JStr ''2'')]]"
      reply_message]
  by (simp add: closing_channel_def msg_type_endswith_reply_def endswith_def
      every_exchange_def display_message_def result_message_def reply_message_def
      less_Suc_eq)

text \<open>
  C4, as the specification states it, fails: the receive loop has no check for the end of
  a stream, and no exception of its own. On a channel that delivers a frame that is no
  reply and then yields no more frames, the exchange does not fail: it never returns.
  When the receive on the closed channel raises, the exchange fails with whatever was
  raised, the exception of the websocket library in one case and that of \<^verbatim>\<open>json.loads\<close>
  in another: there is no one failure for a reply that is incomplete.
\<close>

theorem communicate_no_incomplete_reply_failure:
  "communicate
     (every_exchange (ending_channel [display_message [(''image/png'', JStr ''A'')]] None))
     JNull = None \<and>
   communicate
     (every_exchange
        (ending_channel [display_message [(''image/png'', JStr ''A'')]]
           (Some ConnectionClosed)))
     JNull = Some (Inl ConnectionClosed) \<and>
   communicate
     (every_exchange
        (ending_channel [display_message [(''image/png'', JStr ''A'')]]
           (Some JSONDecodeError)))
     JNull = Some (Inl JSONDecodeError)"
  by (simp add: communicate_def every_exchange_def ending_channel_def recv_loop.simps
      msg_type_endswith_reply_def endswith_def display_message_def)

text \<open>
  C4, amended: on a channel that opens and sends, and delivers frames of which none has a
  top-level \<open>msg_type\<close> that ends with \<open>_reply\<close>: when the next receive raises an
  exception, as the library does on a closed connection, the exchange fails with that
  same exception, and returns no list; when the next receive yields nothing, the exchange
  does not return.
\<close>

theorem communicate_incomplete_reply:
  assumes "create_connection_error (net message) = None"
    and "send_error (net message) = None"
    and "\<forall>i < length frames. recv (net message) i = Some (Inr (frames ! i))"
    and "\<forall>f \<in> set frames. msg_type_endswith_reply f = Inr False"
  shows "(\<forall>e. recv (net message) (length frames) = Some (Inl e) \<longrightarrow>
            communicate net message = Some (Inl e)) \<and>
         (recv (net message) (length frames) = None \<longrightarrow> communicate net message = None)"
proof -
  have "recv_loop (recv (net message)) 0 [] =
        recv_loop (recv (net message)) (0 + length frames) ([] @ frames)"
    by (rule recv_loop_frames) (use assms in simp_all)
  then have c: "communicate net message =
                recv_loop (recv (net message)) (length frames) frames"
    by (simp add: communicate_def assms)
  show ?thesis
    unfolding c by (subst recv_loop.simps, simp)+
qed

theorem communicate_incomplete_reply_witness:
  "communicate
     (every_exchange (closing_channel
        [display_message [(''image/png'', JStr ''A'')],
         result_message [(''text/plain'', JStr ''2'')]]))
     JNull =
   Some (Inl ConnectionClosed)"
  using communicate_incomplete_reply
    [of "every_exchange (closing_channel
        [display_message [(''image/png'', JStr ''A'')],
         result_message [(''text/plain'', JStr ''2'')]])"
      JNull
      "[display_message [(''image/png'', JStr ''A'')],
        result_message [(''text/plain'', JStr ''2'')]]"]
  by (simp add: closing_channel_def msg_type_endswith_reply_def endswith_def
      every_exchange_def display_message_def result_message_def less_Suc_eq)

section \<open>Completion\<close>



section \<open>The text result handler\<close>

text \<open>
  C9: with a configured maximum length \<open>l\<close> (not negative) and a result that is a
  \<^verbatim>\<open>str\<close>, the text handler appends to the view the lines \<open>input:\<close>, the input
  shown, \<open>output:\<close>, the result, \<open>---\<close> and an empty line; the input shown is the
  first \<open>l\<close> characters of the code followed by \<open>...\<close> when the code is longer than
  \<open>l\<close>, and the code unmodified when its length is exactly \<open>l\<close>.
\<close>

theorem handle_text_truncation:
  assumes "0 \<le> l"
  shows "handle_text (Some l) code (JStr result) view =
           (None, view @ ''input:'' @ [CHR 0x0A] @ shown_input l code @ [CHR 0x0A] @
                  ''output:'' @ [CHR 0x0A] @ result @ [CHR 0x0A] @
                  ''---'' @ [CHR 0x0A] @ [CHR 0x0A] @ [CHR 0x0A]) \<and>
         (l < int (length code) \<longrightarrow> shown_input l code = take (nat l) code @ ''...'') \<and>
         (int (length code) = l \<longrightarrow> shown_input l code = code)"
  using assms by (simp add: handle_text_def write_line_def shown_input_def py_slice_to_def)

theorem handle_text_truncation_witness:
  "handle_text (Some 5) ''abcdef'' (JStr ''42'') [] =
     (None, ''input:'' @ [CHR 0x0A] @ ''abcde...'' @ [CHR 0x0A] @
            ''output:'' @ [CHR 0x0A] @ ''42'' @ [CHR 0x0A] @
            ''---'' @ [CHR 0x0A] @ [CHR 0x0A] @ [CHR 0x0A]) \<and>
   shown_input 5 ''abcdef'' = ''abcde...'' \<and>
   shown_input 5 ''abcde'' = ''abcde''"
  using handle_text_truncation [of 5 "''abcdef''" "''42''" "[]"]
    handle_text_truncation [of 5 "''abcde''" "''42''" "[]"]
  by simp

section \<open>The callback of \<^verbatim>\<open>execute_code\<close>\<close>

text \<open>
  What no pass of a \<^verbatim>\<open>for\<close> loop changes, the loop does not change, however it
  ends.
\<close>

lemma for_loop_preserves:
  assumes "\<And>x s r s'. body x s = (r, s') \<Longrightarrow> g s' = g s"
  shows "for_loop body xs s = (r, s') \<Longrightarrow> g s' = g s"
proof (induction xs arbitrary: s)
  case Nil
  then show ?case by simp
next
  case (Cons x xs)
  obtain r1 s1 where b: "body x s = (r1, s1)" by (cases "body x s")
  with assms have g1: "g s1 = g s" by blast
  show ?case
  proof (cases r1)
    case None
    with Cons.prems b have "for_loop body xs s1 = (r, s')" by simp
    from Cons.IH [OF this] g1 show ?thesis by simp
  next
    case (Some e)
    with Cons.prems b have "s' = s1" by simp
    with g1 show ?thesis by simp
  qed
qed

lemma snd_except_KeyError_pass: "snd (except_KeyError_pass p) = snd p"
  by (cases p rule: except_KeyError_pass.cases) auto

text \<open>
  On a stream of well-formed messages \<open>extract_content\<close> is the selection by type of
  the specification.
\<close>

lemma extract_content_select:
  "\<forall>m \<in> set stream. wf_message m \<Longrightarrow>
   extract_content stream msg_type = Inr (select_by_type stream msg_type)"
proof (induction stream)
  case Nil
  then show ?case by (simp add: select_by_type_def map_filter_simps)
next
  case (Cons m ms)
  from Cons.prems obtain t c where p: "message_parts m = Some (t, c)"
    by (auto simp: wf_message_def)
  then obtain items header where
    m: "m = JObj items" "map_of items ''header'' = Some (JObj header)"
       "map_of header ''msg_type'' = Some (JStr t)" "map_of items ''content'' = Some c"
    by (auto simp: message_parts_def split: json.splits option.splits)
  from Cons have IH: "extract_content ms msg_type = Inr (select_by_type ms msg_type)"
    by simp
  show ?case
    using m p IH by (simp add: select_by_type_def map_filter_simps)
qed

text \<open>
  The loops of the callback run the handler calls that the content blocks ask for: a
  run of calls can be cut in two, a loop whose passes are runs is the run of all of
  them, and \<^verbatim>\<open>except KeyError: pass\<close> around a handler call is the run of that call.
\<close>

lemma dispatch_append:
  "dispatch (xs @ ys) s =
     (case dispatch xs s of (None, s1) \<Rightarrow> dispatch ys s1 | (Some e, s1) \<Rightarrow> (Some e, s1))"
  by (induction xs arbitrary: s) (auto split: option.splits)

lemma for_loop_dispatch:
  assumes "\<And>x s. x \<in> set xs \<Longrightarrow> body (h x) s = dispatch (f x) s"
  shows "for_loop body (map h xs) s = dispatch (concat (map f xs)) s"
  using assms
proof (induction xs arbitrary: s)
  case Nil
  then show ?case by simp
next
  case (Cons x xs)
  have b: "body (h x) s = dispatch (f x) s" using Cons.prems by simp
  obtain r s1 where d: "dispatch (f x) s = (r, s1)" by (cases "dispatch (f x) s")
  show ?case
  proof (cases r)
    case None
    with b d Cons.IH [of s1] Cons.prems show ?thesis
      by (simp add: dispatch_append)
  next
    case (Some e)
    with b d show ?thesis by (simp add: dispatch_append)
  qed
qed

lemma except_KeyError_pass_eq:
  "except_KeyError_pass (r, s) =
     (case r of None \<Rightarrow> (None, s)
      | Some e \<Rightarrow> if is_KeyError e then (None, s) else (Some e, s))"
  by (cases "(r, s)" rule: except_KeyError_pass.cases)
     (auto split: option.splits elim: is_KeyError.elims)

lemma except_KeyError_pass_dispatch:
  "except_KeyError_pass
     (case h (world s) of (r, w) \<Rightarrow> (r, \<lparr>world = w, invoked = invoked s @ [c]\<rparr>)) =
   dispatch [(h, c)] s"
  by (cases "h (world s)")
     (simp add: except_KeyError_pass_eq after_call_def split: option.splits)

lemma call_display_handler_dispatch:
  assumes "map_of kvs k = Some v"
  shows "call_display_handler self (JObj kvs) (JStr k) s =
           dispatch (case handle_display_data self k of
                       None \<Rightarrow> []
                     | Some handler \<Rightarrow> [(handler v, Display_call k v)]) s"
proof (cases "handle_display_data self k")
  case None
  then show ?thesis by (simp add: call_display_handler_def)
next
  case (Some handler)
  from except_KeyError_pass_dispatch [where h = "handler v" and s = s and c = "Display_call k v"]
  show ?thesis using Some assms by (simp add: call_display_handler_def del: dispatch.simps)
qed

lemma call_result_handler_dispatch:
  assumes "map_of kvs k = Some v"
  shows "call_result_handler self code (JObj kvs) (JStr k) s =
           dispatch (case run_commands self k of
                       None \<Rightarrow> []
                     | Some handler \<Rightarrow> [(handler code v, Result_call k code v)]) s"
proof (cases "run_commands self k")
  case None
  then show ?thesis by (simp add: call_result_handler_def)
next
  case (Some handler)
  from except_KeyError_pass_dispatch
    [where h = "handler code v" and s = s and c = "Result_call k code v"]
  show ?thesis using Some assms by (simp add: call_result_handler_def del: dispatch.simps)
qed

lemma dict_payload_cases:
  assumes "dict_payload content"
  obtains "extract_data content = Inr (JStr [])" "payload_items content = []"
  | kvs where "extract_data content = Inr (JObj kvs)" "payload_items content = kvs"
      "distinct (map fst kvs)"
proof (cases content)
  case (JObj items)
  show ?thesis
  proof (cases "map_of items ''data''")
    case None
    with JObj that(1) show ?thesis
      by (simp add: extract_data_def payload_items_def)
  next
    case (Some d)
    with JObj assms obtain kvs where "d = JObj kvs" "distinct (map fst kvs)"
      by (cases d) (simp_all add: dict_payload_def)
    with JObj Some that(2) show ?thesis
      by (simp add: extract_data_def payload_items_def)
  qed
qed (use assms in \<open>simp_all add: dict_payload_def\<close>)

lemma handle_display_content_dispatch:
  assumes "dict_payload content"
  shows "handle_display_content self content s =
           dispatch (display_handler_calls self [content]) s"
  using assms
proof (cases rule: dict_payload_cases)
  case 1
  then show ?thesis
    by (simp add: handle_display_content_def display_handler_calls_def)
next
  case (2 kvs)
  have "for_loop (call_display_handler self (JObj kvs)) (map (\<lambda>kv. JStr (fst kv)) kvs) s =
        dispatch (concat (map (\<lambda>kv. case handle_display_data self (fst kv) of
                                  None \<Rightarrow> []
                                | Some handler \<Rightarrow>
                                    [(handler (snd kv), Display_call (fst kv) (snd kv))])
                            kvs)) s"
  proof (rule for_loop_dispatch)
    fix x s
    assume "x \<in> set kvs"
    with 2(3) have "map_of kvs (fst x) = Some (snd x)" by simp
    then show "call_display_handler self (JObj kvs) (JStr (fst x)) s =
            dispatch (case handle_display_data self (fst x) of
                        None \<Rightarrow> []
                      | Some handler \<Rightarrow>
                          [(handler (snd x), Display_call (fst x) (snd x))]) s"
      by (rule call_display_handler_dispatch)
  qed
  then show ?thesis
    using 2 by (simp add: handle_display_content_def display_handler_calls_def)
qed

lemma display_handler_calls_concat:
  "display_handler_calls self contents =
   concat (map (\<lambda>c. display_handler_calls self [c]) contents)"
  by (simp add: display_handler_calls_def)

lemma display_step_dispatch:
  assumes "\<forall>m \<in> set reply. wf_message m"
    and "\<forall>c \<in> set (select_by_type reply MSG_TYPE_DISPLAY_DATA). dict_payload c"
  shows "display_step self reply s =
           dispatch (display_handler_calls self
                       (select_by_type reply MSG_TYPE_DISPLAY_DATA)) s"
proof -
  let ?cs = "select_by_type reply MSG_TYPE_DISPLAY_DATA"
  have "for_loop (handle_display_content self) (map (\<lambda>c. c) ?cs) s =
        dispatch (concat (map (\<lambda>c. display_handler_calls self [c]) ?cs)) s"
    by (rule for_loop_dispatch) (use assms(2) handle_display_content_dispatch in blast)
  then show ?thesis
    using extract_content_select [OF assms(1)]
    by (simp add: display_step_def display_handler_calls_concat [symmetric])
qed

lemma handle_result_content_dispatch:
  assumes "dict_payload content"
  shows "(case extract_data content of
            Inl e \<Rightarrow> (Some (Exception e), s)
          | Inr data \<Rightarrow>
              (case py_iter data of
                 Inl e \<Rightarrow> (Some (Exception e), s)
               | Inr mime_types \<Rightarrow>
                   for_loop (call_result_handler self code data) mime_types s)) =
         dispatch (result_handler_calls self code [content]) s"
  using assms
proof (cases rule: dict_payload_cases)
  case 1
  then show ?thesis by (simp add: result_handler_calls_def)
next
  case (2 kvs)
  have "for_loop (call_result_handler self code (JObj kvs))
          (map (\<lambda>kv. JStr (fst kv)) kvs) s =
        dispatch (concat (map (\<lambda>kv. case run_commands self (fst kv) of
                                  None \<Rightarrow> []
                                | Some handler \<Rightarrow>
                                    [(handler code (snd kv),
                                      Result_call (fst kv) code (snd kv))])
                            kvs)) s"
  proof (rule for_loop_dispatch)
    fix x s
    assume "x \<in> set kvs"
    with 2(3) have "map_of kvs (fst x) = Some (snd x)" by simp
    then show "call_result_handler self code (JObj kvs) (JStr (fst x)) s =
            dispatch (case run_commands self (fst x) of
                        None \<Rightarrow> []
                      | Some handler \<Rightarrow>
                          [(handler code (snd x), Result_call (fst x) code (snd x))]) s"
      by (rule call_result_handler_dispatch)
  qed
  then show ?thesis using 2 by (simp add: result_handler_calls_def)
qed

lemma result_step_dispatch:
  assumes "\<forall>m \<in> set reply. wf_message m"
    and "\<forall>c \<in> set (select_by_type reply MSG_TYPE_EXECUTE_RESULT). dict_payload c"
    and "length (select_by_type reply MSG_TYPE_EXECUTE_RESULT) \<le> 1"
  shows "result_step self code reply s =
           dispatch (result_handler_calls self code
                       (select_by_type reply MSG_TYPE_EXECUTE_RESULT)) s"
proof (cases "select_by_type reply MSG_TYPE_EXECUTE_RESULT")
  case Nil
  with extract_content_select [OF assms(1)] show ?thesis
    by (simp add: result_step_def result_handler_calls_def)
next
  case (Cons c cs)
  with assms(3) have cs: "cs = []" by simp
  from assms(2) Cons have "dict_payload c" by simp
  from handle_result_content_dispatch [OF this, of s self code]
  show ?thesis
    using extract_content_select [OF assms(1), of MSG_TYPE_EXECUTE_RESULT] Cons cs
    by (simp add: result_step_def)
qed


lemma callback_dispatch:
  assumes "\<forall>m \<in> set reply. wf_message m"
    and "\<forall>c \<in> set (select_by_type reply MSG_TYPE_DISPLAY_DATA). dict_payload c"
    and "\<forall>c \<in> set (select_by_type reply MSG_TYPE_EXECUTE_RESULT). dict_payload c"
    and "length (select_by_type reply MSG_TYPE_EXECUTE_RESULT) \<le> 1"
  shows "execute_code_callback self code reply s =
           dispatch (display_handler_calls self (select_by_type reply MSG_TYPE_DISPLAY_DATA) @
                     result_handler_calls self code
                       (select_by_type reply MSG_TYPE_EXECUTE_RESULT)) s"
  unfolding execute_code_callback_def dispatch_append
    display_step_dispatch [OF assms(1,2)]
  by (auto simp: result_step_dispatch [OF assms(1,3,4)] split: prod.splits option.splits)


text \<open>
  The display step calls no result handler, however it ends.
\<close>

lemma result_calls_append: "result_calls (xs @ ys) = result_calls xs @ result_calls ys"
  by (induction xs rule: result_calls.induct) auto

lemma call_display_handler_result_calls:
  "call_display_handler self d k s = (r, s') \<Longrightarrow>
   result_calls (invoked s') = result_calls (invoked s)"
  unfolding call_display_handler_def
  by (drule arg_cong [where f = snd])
     (auto simp: snd_except_KeyError_pass result_calls_append
       split: json.splits option.splits sum.splits prod.splits)

lemma handle_display_content_result_calls:
  assumes "handle_display_content self c s = (r, s')"
  shows "result_calls (invoked s') = result_calls (invoked s)"
proof (cases "extract_data c")
  case (Inl e)
  with assms show ?thesis by (simp add: handle_display_content_def)
next
  case (Inr d)
  show ?thesis
  proof (cases "py_iter d")
    case (Inl e)
    with Inr assms show ?thesis by (simp add: handle_display_content_def)
  next
    case (Inr ks)
    with \<open>extract_data c = Inr d\<close> assms
    have "for_loop (call_display_handler self d) ks s = (r, s')"
      by (simp add: handle_display_content_def)
    then show ?thesis
      by (rule for_loop_preserves [rotated]) (rule call_display_handler_result_calls)
  qed
qed

lemma display_step_result_calls:
  assumes "display_step self reply s = (r, s')"
  shows "result_calls (invoked s') = result_calls (invoked s)"
proof (cases "extract_content reply MSG_TYPE_DISPLAY_DATA")
  case (Inl e)
  with assms show ?thesis by (simp add: display_step_def)
next
  case (Inr cs)
  with assms have "for_loop (handle_display_content self) cs s = (r, s')"
    by (simp add: display_step_def)
  then show ?thesis
    by (rule for_loop_preserves [rotated]) (rule handle_display_content_result_calls)
qed

text \<open>
  The example frames are well-formed messages.
\<close>

lemma example_stream_wf:
  "wf_message (display_message payload)" "wf_message (result_message payload)"
  "wf_message reply_message"
  by (simp_all add: wf_message_def message_parts_def display_message_def
      result_message_def reply_message_def)

lemma example_stream_parts:
  "message_parts (display_message payload) = Some (''display_data'', JObj [(''data'', JObj payload)])"
  "message_parts (result_message payload) = Some (''execute_result'', JObj [(''data'', JObj payload)])"
  "message_parts reply_message = Some (''execute_reply'', JObj [(''status'', JStr ''ok'')])"
  by (simp_all add: message_parts_def display_message_def result_message_def
      reply_message_def)

text \<open>
  C10: when the display step of the callback has completed normally, leaving the state
  \<open>s'\<close>, and the reply stream has no \<open>execute_result\<close> content, the callback
  returns without an error in that state \<open>s'\<close>, and no result handler has been
  called.
\<close>

theorem callback_without_execute_result:
  assumes "display_step self reply s = (None, s')"
    and "extract_content reply MSG_TYPE_EXECUTE_RESULT = Inr []"
  shows "execute_code_callback self code reply s = (None, s') \<and>
         result_calls (invoked s') = result_calls (invoked s)"
  using assms display_step_result_calls [OF assms(1)]
  by (simp add: execute_code_callback_def result_step_def)

theorem callback_without_execute_result_witness:
  "execute_code_callback (recording_connection None) ''plot()''
     [display_message [(''image/png'', JStr ''A'')], reply_message]
     \<lparr>world = [], invoked = []\<rparr> =
   (None, \<lparr>world = [JStr ''A''], invoked = [Display_call ''image/png'' (JStr ''A'')]\<rparr>) \<and>
   result_calls [Display_call ''image/png'' (JStr ''A'')] = result_calls []"
proof -
  let ?reply = "[display_message [(''image/png'', JStr ''A'')], reply_message]"
  have h1: "display_step (recording_connection None) ?reply \<lparr>world = [], invoked = []\<rparr> =
     (None, \<lparr>world = [JStr ''A''], invoked = [Display_call ''image/png'' (JStr ''A'')]\<rparr>)"
    by (simp add: display_step_def handle_display_content_def
      call_display_handler_def recording_connection_def display_message_def
      reply_message_def MSG_TYPE_DISPLAY_DATA_def extract_data_def)
  have h2: "extract_content ?reply MSG_TYPE_EXECUTE_RESULT = Inr []"
    by (simp add: display_message_def reply_message_def MSG_TYPE_EXECUTE_RESULT_def)
  from callback_without_execute_result [OF h1 h2, of "''plot()''"]
  show ?thesis by simp
qed




section \<open>The async dispatcher\<close>


lemma fired_append: "fired (xs @ ys) = fired xs @ fired ys"
  by (induction xs rule: fired.induct) auto











text \<open>
  C1, as the specification states it, fails: when the exchange of a task fails, because
  no connection can be opened or because the channel is closed before a terminal reply,
  the worker prints the exception and never calls the callback of the task; the callback
  would have set the state to \<open>True\<close>, as it does after an exchange that succeeds.
\<close>

theorem run_body_prints_exchange_failure:
  "run_body (every_exchange refusing_channel)
     (async_communicate (JNull, mark_called) (init_dispatcher False)) =
   Some \<lparr>message_queue = [],
         trace = [Exchange_begin JNull, Exchange_end JNull,
                  Printed (WebSocketError ''refused'')],
         user = False, alive = True\<rparr> \<and>
   run_body (every_exchange (closing_channel [display_message []]))
     (async_communicate (JNull, mark_called) (init_dispatcher False)) =
   Some \<lparr>message_queue = [],
         trace = [Exchange_begin JNull, Exchange_end JNull, Printed ConnectionClosed],
         user = False, alive = True\<rparr> \<and>
   run_body (every_exchange (closing_channel [reply_message]))
     (async_communicate (JNull, mark_called) (init_dispatcher False)) =
   Some \<lparr>message_queue = [],
         trace = [Exchange_begin JNull, Exchange_end JNull,
                  Callback_fired JNull [reply_message]],
         user = True, alive = True\<rparr>"
  by (simp add: run_body_def begin_exchange_def end_exchange_def async_communicate_def
      init_dispatcher_def communicate_def
      refusing_channel_def closing_channel_def recv_loop.simps display_message_def
      reply_message_def msg_type_endswith_reply_def endswith_def every_exchange_def
      mark_called_def)

text \<open>
  C1, amended: for a task taken by the worker whose exchange fails with an exception
  \<open>err\<close>, the worker prints \<open>err\<close> and does not call the callback of the task: no
  callback is fired and the state of the callbacks is unchanged; the worker goes on with
  the tasks that wait.
\<close>

theorem run_body_exchange_failure:
  assumes "message_queue d = (message, cb) # waiting"
    and "communicate net message = Some (Inl err)"
  shows "run_body net d =
           Some (d\<lparr>message_queue := waiting,
                   trace := trace d @
                     [Exchange_begin message, Exchange_end message, Printed err]\<rparr>) \<and>
         (\<forall>d'. run_body net d = Some d' \<longrightarrow>
            user d' = user d \<and> fired (trace d') = fired (trace d))"
  using assms
  by (simp add: run_body_def begin_exchange_def end_exchange_def fired_append)

theorem run_body_exchange_failure_witness:
  "run_body (every_exchange refusing_channel)
     \<lparr>message_queue = [(JNull, mark_called), (JInt 1, mark_called)],
      trace = [], user = False, alive = True\<rparr> =
   Some \<lparr>message_queue = [(JInt 1, mark_called)],
         trace = [Exchange_begin JNull, Exchange_end JNull,
                  Printed (WebSocketError ''refused'')],
         user = False, alive = True\<rparr>"
proof -
  have c: "communicate (every_exchange refusing_channel) JNull =
             Some (Inl (WebSocketError ''refused''))"
    by (simp add: communicate_def refusing_channel_def every_exchange_def)
  from run_body_exchange_failure [of
      "\<lparr>message_queue = [(JNull, mark_called), (JInt 1, mark_called)],
        trace = [], user = False, alive = True\<rparr>"
      JNull mark_called "[(JInt 1, mark_called)]"
      "every_exchange refusing_channel" "WebSocketError ''refused''"] c
  show ?thesis by simp
qed

text \<open>
  What a pass of the worker does with the outcome of a callback: an \<^verbatim>\<open>Exception\<close> is
  printed, and what is no \<^verbatim>\<open>Exception\<close> ends the thread.
\<close>

lemma run_body_callback:
  assumes "message_queue d = (message, cb) # waiting"
    and "communicate net message = Some (Inr reply)"
    and "cb reply (user d) = (r, s')"
  shows "run_body net d =
           Some (d\<lparr>message_queue := waiting,
                   trace := trace d @
                     [Exchange_begin message, Exchange_end message,
                      Callback_fired message reply] @
                     (case r of Some (Exception err) \<Rightarrow> [Printed err] | _ \<Rightarrow> []),
                   user := s',
                   alive := (case r of Some (BaseException name) \<Rightarrow> False
                             | _ \<Rightarrow> alive d)\<rparr>)"
proof (cases r)
  case None
  with assms show ?thesis
    by (simp add: run_body_def begin_exchange_def end_exchange_def)
next
  case (Some e)
  with assms show ?thesis
    by (cases e) (simp_all add: run_body_def begin_exchange_def end_exchange_def)
qed

text \<open>
  C6, as the specification states it, fails: when the handler of \<open>image/png\<close> raises
  an exception other than \<^verbatim>\<open>KeyError\<close>, the callback ends with that exception at once;
  the registered handler of \<open>text/html\<close> is called neither for the other key of the
  same content block nor for the next content block, nor is any result handler.
\<close>

theorem callback_handler_fault_ends_dispatch:
  "handle_display_data (recording_connection (Some (Exception (OtherError ''boom''))))
     ''text/html'' \<noteq> None \<and>
   execute_code_callback (recording_connection (Some (Exception (OtherError ''boom''))))
     ''plot()''
     [display_message [(''image/png'', JStr ''A''), (''text/html'', JStr ''H1'')],
      display_message [(''text/html'', JStr ''H2'')],
      result_message [(''text/plain'', JStr ''2'')],
      reply_message]
     \<lparr>world = [], invoked = []\<rparr> =
   (Some (Exception (OtherError ''boom'')),
    \<lparr>world = [JStr ''A''], invoked = [Display_call ''image/png'' (JStr ''A'')]\<rparr>)"
  by (simp add: execute_code_callback_def display_step_def handle_display_content_def
      call_display_handler_def recording_connection_def display_message_def
      result_message_def reply_message_def MSG_TYPE_DISPLAY_DATA_def extract_data_def)

text \<open>
  C6, amended: on a reply stream of well-formed messages whose contents have MIME
  payloads, with at most one \<open>execute_result\<close>, the callback runs the handler calls
  that the stream asks for, display calls first, in the order of the stream. A handler
  call that raises \<^verbatim>\<open>KeyError\<close> does not prevent the calls after it, for the other MIME
  keys and the other content blocks: the callback goes on with them, in the world that
  the call left. A handler call that raises anything else ends the callback at that call,
  with what was raised, and the calls after it are not made. The worker is not terminated
  by an \<^verbatim>\<open>Exception\<close> that leaves the callback: it prints it and goes on with the tasks
  that wait; what is no \<^verbatim>\<open>Exception\<close> (\<^verbatim>\<open>SystemExit\<close>) ends the worker thread.
\<close>

theorem handler_KeyError_isolated:
  assumes "\<forall>m \<in> set reply. wf_message m"
    and "\<forall>c \<in> set (select_by_type reply MSG_TYPE_DISPLAY_DATA). dict_payload c"
    and "\<forall>c \<in> set (select_by_type reply MSG_TYPE_EXECUTE_RESULT). dict_payload c"
    and "length (select_by_type reply MSG_TYPE_EXECUTE_RESULT) \<le> 1"
    and "calls = display_handler_calls self (select_by_type reply MSG_TYPE_DISPLAY_DATA) @
                 result_handler_calls self code
                   (select_by_type reply MSG_TYPE_EXECUTE_RESULT)"
  shows "execute_code_callback self code reply s = dispatch calls s \<and>
         (\<forall>before hc after s1 k.
            calls = before @ hc # after \<and> dispatch before s = (None, s1) \<and>
            fst (fst hc (world s1)) = Some (Exception (KeyError k)) \<longrightarrow>
            execute_code_callback self code reply s = dispatch after (after_call hc s1)) \<and>
         (\<forall>before hc after s1 e.
            calls = before @ hc # after \<and> dispatch before s = (None, s1) \<and>
            fst (fst hc (world s1)) = Some e \<and> \<not> is_KeyError e \<longrightarrow>
            execute_code_callback self code reply s = (Some e, after_call hc s1)) \<and>
         (\<forall>d net message waiting r s'.
            message_queue d = (message, execute_code_callback self code) # waiting \<and>
            communicate net message = Some (Inr reply) \<and> user d = s \<and>
            execute_code_callback self code reply s = (r, s') \<longrightarrow>
            run_body net d =
              Some (d\<lparr>message_queue := waiting,
                      trace := trace d @
                        [Exchange_begin message, Exchange_end message,
                         Callback_fired message reply] @
                        (case r of Some (Exception err) \<Rightarrow> [Printed err] | _ \<Rightarrow> []),
                      user := s',
                      alive := (case r of Some (BaseException name) \<Rightarrow> False
                                | _ \<Rightarrow> alive d)\<rparr>))"
proof -
  have c: "execute_code_callback self code reply s = dispatch calls s"
    unfolding assms(5) by (rule callback_dispatch [OF assms(1-4)])
  have k: "dispatch (before @ hc # after) s = dispatch after (after_call hc s1)"
    if "dispatch before s = (None, s1)"
      "fst (fst hc (world s1)) = Some (Exception (KeyError k))"
    for before hc after s1 k
    using that by (simp add: dispatch_append)
  have o: "dispatch (before @ hc # after) s = (Some e, after_call hc s1)"
    if "dispatch before s = (None, s1)" "fst (fst hc (world s1)) = Some e" "\<not> is_KeyError e"
    for before hc after s1 e
    using that by (simp add: dispatch_append)
  show ?thesis
  proof (intro conjI allI impI)
    show "execute_code_callback self code reply s = dispatch calls s" by (rule c)
  next
    fix before hc after s1 k
    assume "calls = before @ hc # after \<and> dispatch before s = (None, s1) \<and>
            fst (fst hc (world s1)) = Some (Exception (KeyError k))"
    then show "execute_code_callback self code reply s = dispatch after (after_call hc s1)"
      unfolding c using k by blast
  next
    fix before hc after s1 e
    assume "calls = before @ hc # after \<and> dispatch before s = (None, s1) \<and>
            fst (fst hc (world s1)) = Some e \<and> \<not> is_KeyError e"
    then show "execute_code_callback self code reply s = (Some e, after_call hc s1)"
      unfolding c using o by blast
  next
    fix d :: "'a callback_state dispatcher" and net message waiting r s'
    assume "message_queue d = (message, execute_code_callback self code) # waiting \<and>
            communicate net message = Some (Inr reply) \<and> user d = s \<and>
            execute_code_callback self code reply s = (r, s')"
    then have "message_queue d = (message, execute_code_callback self code) # waiting"
      "communicate net message = Some (Inr reply)"
      "execute_code_callback self code reply (user d) = (r, s')"
      by simp_all
    then show "run_body net d =
              Some (d\<lparr>message_queue := waiting,
                      trace := trace d @
                        [Exchange_begin message, Exchange_end message,
                         Callback_fired message reply] @
                        (case r of Some (Exception err) \<Rightarrow> [Printed err] | _ \<Rightarrow> []),
                      user := s',
                      alive := (case r of Some (BaseException name) \<Rightarrow> False
                                | _ \<Rightarrow> alive d)\<rparr>)"
      by (rule run_body_callback)
  qed
qed

theorem handler_KeyError_isolated_witness:
  "execute_code_callback (recording_connection (Some (Exception (KeyError (JStr ''k'')))))
     ''plot()''
     [display_message [(''image/png'', JStr ''A''), (''text/html'', JStr ''H1'')],
      display_message [(''text/html'', JStr ''H2'')],
      result_message [(''text/plain'', JStr ''2'')],
      reply_message]
     \<lparr>world = [], invoked = []\<rparr> =
   (None,
    \<lparr>world = [JStr ''A'', JStr ''H1'', JStr ''H2'', JStr ''2''],
      invoked =
        [Display_call ''image/png'' (JStr ''A''), Display_call ''text/html'' (JStr ''H1''),
         Display_call ''text/html'' (JStr ''H2''),
         Result_call ''text/plain'' ''plot()'' (JStr ''2'')]\<rparr>) \<and>
   run_body
     (every_exchange (closing_channel
        [display_message [(''image/png'', JStr ''A''), (''text/html'', JStr ''H1'')],
         display_message [(''text/html'', JStr ''H2'')],
         result_message [(''text/plain'', JStr ''2'')],
         reply_message]))
     \<lparr>message_queue =
        [(JNull,
          execute_code_callback
            (recording_connection (Some (Exception (KeyError (JStr ''k''))))) ''plot()'')],
      trace = [], user = \<lparr>world = [], invoked = []\<rparr>, alive = True\<rparr> =
   Some
     \<lparr>message_queue = [],
      trace =
        [Exchange_begin JNull, Exchange_end JNull,
         Callback_fired JNull
           [display_message [(''image/png'', JStr ''A''), (''text/html'', JStr ''H1'')],
            display_message [(''text/html'', JStr ''H2'')],
            result_message [(''text/plain'', JStr ''2'')],
            reply_message]],
      user =
        \<lparr>world = [JStr ''A'', JStr ''H1'', JStr ''H2'', JStr ''2''],
          invoked =
            [Display_call ''image/png'' (JStr ''A''),
             Display_call ''text/html'' (JStr ''H1''),
             Display_call ''text/html'' (JStr ''H2''),
             Result_call ''text/plain'' ''plot()'' (JStr ''2'')]\<rparr>,
      alive = True\<rparr>"
proof -
  let ?self = "recording_connection (Some (Exception (KeyError (JStr ''k''))))"
  let ?reply = "[display_message [(''image/png'', JStr ''A''), (''text/html'', JStr ''H1'')],
      display_message [(''text/html'', JStr ''H2'')],
      result_message [(''text/plain'', JStr ''2'')],
      reply_message]"
  let ?s = "\<lparr>world = [] :: json list, invoked = []\<rparr>"
  let ?s' = "\<lparr>world = [JStr ''A'', JStr ''H1'', JStr ''H2'', JStr ''2''],
      invoked =
        [Display_call ''image/png'' (JStr ''A''), Display_call ''text/html'' (JStr ''H1''),
         Display_call ''text/html'' (JStr ''H2''),
         Result_call ''text/plain'' ''plot()'' (JStr ''2'')]\<rparr>"
  let ?d = "\<lparr>message_queue = [(JNull, execute_code_callback ?self ''plot()'')],
      trace = [], user = ?s, alive = True\<rparr>"
  let ?net = "every_exchange (closing_channel ?reply)"
  let ?calls = "display_handler_calls ?self (select_by_type ?reply MSG_TYPE_DISPLAY_DATA) @
                result_handler_calls ?self ''plot()''
                  (select_by_type ?reply MSG_TYPE_EXECUTE_RESULT)"
  have d: "select_by_type ?reply MSG_TYPE_DISPLAY_DATA =
      [JObj [(''data'', JObj [(''image/png'', JStr ''A''), (''text/html'', JStr ''H1'')])],
       JObj [(''data'', JObj [(''text/html'', JStr ''H2'')])]]"
    by (simp add: select_by_type_def map_filter_simps example_stream_parts
        MSG_TYPE_DISPLAY_DATA_def)
  have r: "select_by_type ?reply MSG_TYPE_EXECUTE_RESULT =
      [JObj [(''data'', JObj [(''text/plain'', JStr ''2'')])]]"
    by (simp add: select_by_type_def map_filter_simps example_stream_parts
        MSG_TYPE_EXECUTE_RESULT_def)
  have h1: "\<forall>m \<in> set ?reply. wf_message m" by (simp add: example_stream_wf)
  have h2: "\<forall>c \<in> set (select_by_type ?reply MSG_TYPE_DISPLAY_DATA). dict_payload c"
    unfolding d by (simp add: dict_payload_def)
  have h3: "\<forall>c \<in> set (select_by_type ?reply MSG_TYPE_EXECUTE_RESULT). dict_payload c"
    unfolding r by (simp add: dict_payload_def)
  have h4: "length (select_by_type ?reply MSG_TYPE_EXECUTE_RESULT) \<le> 1"
    unfolding r by simp
  note inst = handler_KeyError_isolated [OF h1 h2 h3 h4 refl, of ?self "''plot()''" ?s]
  have run: "dispatch ?calls ?s = (None, ?s')"
    unfolding d r
    by (simp add: display_handler_calls_def result_handler_calls_def payload_items_def
        recording_connection_def after_call_def)
  from inst have cb: "execute_code_callback ?self ''plot()'' ?reply ?s = (None, ?s')"
    unfolding run by (rule conjunct1)
  have c: "communicate ?net JNull = Some (Inr ?reply)"
    by (simp add: communicate_def closing_channel_def recv_loop.simps every_exchange_def
        msg_type_endswith_reply_def endswith_def display_message_def result_message_def
        reply_message_def)
  from inst have
    "\<forall>d net message waiting r s'.
        message_queue d = (message, execute_code_callback ?self ''plot()'') # waiting \<and>
        communicate net message = Some (Inr ?reply) \<and> user d = ?s \<and>
        execute_code_callback ?self ''plot()'' ?reply ?s = (r, s') \<longrightarrow>
        run_body net d =
          Some (d\<lparr>message_queue := waiting,
                  trace := trace d @
                    [Exchange_begin message, Exchange_end message,
                     Callback_fired message ?reply] @
                    (case r of Some (Exception err) \<Rightarrow> [Printed err] | _ \<Rightarrow> []),
                  user := s',
                  alive := (case r of Some (BaseException name) \<Rightarrow> False
                            | _ \<Rightarrow> alive d)\<rparr>)"
    by (rule conjunct2 [THEN conjunct2, THEN conjunct2])
  from this [rule_format, of ?d JNull "[]" ?net None ?s'] c cb
  have "run_body ?net ?d =
          Some (?d\<lparr>message_queue := [],
                  trace := trace ?d @
                    [Exchange_begin JNull, Exchange_end JNull,
                     Callback_fired JNull ?reply] @ [],
                  user := ?s', alive := alive ?d\<rparr>)"
    by simp
  then have "run_body ?net ?d =
     Some \<lparr>message_queue = [],
       trace = [Exchange_begin JNull, Exchange_end JNull, Callback_fired JNull ?reply],
       user = ?s', alive = True\<rparr>"
    by simp
  with cb show ?thesis by (rule conjI)
qed



















text \<open>
  The schedules above are those of async submissions. A call of \<^verbatim>\<open>get_complete\<close>
  makes its exchange on the thread of its caller, without the queue: during an exchange
  of the worker, two exchanges are then in flight.
\<close>

lemma sync_exchange_overlaps:
  "\<not> one_in_flight 0
       (trace (async_communicator
          (exec net [Submit (JInt 1, mark_called), Take, Sync_begin (JInt 2)]
             (init_connection False))))"
  by (simp add: init_connection_def init_dispatcher_def async_communicate_def
      begin_exchange_def)

end
